theory Spec2Isabelle
  imports Main "HOL-Library.Word"
begin

unbundle bit_operations_syntax

section \<open>Process data communication of the TRDP stack (trdp\_pdcom.c)\<close>

subsection \<open>Machine integers, error codes, flags\<close>

type_synonym UINT8 = "8 word"
type_synonym UINT16 = "16 word"
type_synonym UINT32 = "32 word"

text \<open>The error codes that trdp\_pdcom.c names.  The last constructor stands for every other
  value of the enumeration (a marshaller or the socket layer may hand one back).\<close>

datatype TRDP_ERR_T =
    TRDP_NO_ERR
  | TRDP_PARAM_ERR
  | TRDP_MEM_ERR
  | TRDP_IO_ERR
  | TRDP_NODATA_ERR
  | TRDP_TIMEOUT_ERR
  | TRDP_BLOCK_ERR
  | TRDP_NOSUB_ERR
  | TRDP_CRC_ERR
  | TRDP_WIRE_ERR
  | TRDP_TOPO_ERR
  | TRDP_OTHER_ERR int

text \<open>The private and the public flag words are bit masks of single-bit constants whose
  values are declared outside the file.  A flag word is modelled as the set of the bits that
  are set: \<open>w & F\<close> is membership, \<open>w |= F\<close> is \<open>insert\<close>, \<open>w & ~F\<close> removes \<open>F\<close>.\<close>

datatype TRDP_PRIV_FLAG =
    TRDP_MC_JOINT
  | TRDP_TIMED_OUT
  | TRDP_INVALID_DATA
  | TRDP_REQ_2B_SENT
  | TRDP_PULL_SUB
  | TRDP_REDUNDANT

datatype TRDP_FLAG =
    TRDP_FLAGS_MARSHALL
  | TRDP_FLAGS_CALLBACK
  | TRDP_FLAGS_TCP
  | TRDP_FLAGS_FORCE_CB

definition UINT32_MAX :: UINT32 where
  "UINT32_MAX = 4294967295"

text \<open>Modelled from the spec: the message type codes ('Pd', 'Pp', 'Pr', 'Pe' as two ASCII
  characters), the largest payload (1432 octets), the size of the fixed header (the FCS ends
  at offset 40) and the two statistics ComIds (31 is the pull request, 35 the reply); their
  declarations are in headers outside the sources.\<close>

definition TRDP_MSG_PD :: UINT16 where
  "TRDP_MSG_PD = 0x5064"

definition TRDP_MSG_PP :: UINT16 where
  "TRDP_MSG_PP = 0x5070"

definition TRDP_MSG_PR :: UINT16 where
  "TRDP_MSG_PR = 0x5072"

definition TRDP_MSG_PE :: UINT16 where
  "TRDP_MSG_PE = 0x5065"

definition TRDP_MAX_PD_DATA_SIZE :: UINT32 where
  "TRDP_MAX_PD_DATA_SIZE = 1432"

definition sizeof_PD_HEADER_T :: UINT32 where
  "sizeof_PD_HEADER_T = 40"



definition TRDP_INVALID_SOCKET_INDEX :: int where
  "TRDP_INVALID_SOCKET_INDEX = - 1"

subsection \<open>Time values\<close>

text \<open>\<open>TRDP_TIME_T\<close> is a \<open>struct timeval\<close>.  The macros \<open>timerisset\<close>, \<open>timercmp\<close> and
  \<open>timerclear\<close> are those of the system header.\<close>

record TRDP_TIME_T =
  tv_sec :: nat
  tv_usec :: nat

definition usecs :: "TRDP_TIME_T \<Rightarrow> nat" where
  "usecs t = tv_sec t * 1000000 + tv_usec t"

definition of_usecs :: "nat \<Rightarrow> TRDP_TIME_T" where
  "of_usecs n = \<lparr>tv_sec = n div 1000000, tv_usec = n mod 1000000\<rparr>"

definition normalized :: "TRDP_TIME_T \<Rightarrow> bool" where
  "normalized t = (tv_usec t < 1000000)"

definition timerisset :: "TRDP_TIME_T \<Rightarrow> bool" where
  "timerisset t = (tv_sec t \<noteq> 0 \<or> tv_usec t \<noteq> 0)"

definition timercmp_gt :: "TRDP_TIME_T \<Rightarrow> TRDP_TIME_T \<Rightarrow> bool" where
  "timercmp_gt a b =
     (if tv_sec a = tv_sec b then tv_usec a > tv_usec b else tv_sec a > tv_sec b)"

definition timercmp_lt :: "TRDP_TIME_T \<Rightarrow> TRDP_TIME_T \<Rightarrow> bool" where
  "timercmp_lt a b =
     (if tv_sec a = tv_sec b then tv_usec a < tv_usec b else tv_sec a < tv_sec b)"

definition timerclear :: TRDP_TIME_T where
  "timerclear = \<lparr>tv_sec = 0, tv_usec = 0\<rparr>"

text \<open>Modelled from the spec: \<open>vos_addTime\<close>, \<open>vos_cmpTime\<close>, \<open>vos_divTime\<close> and
  \<open>vos_mulTime\<close> of the absent vos\_utils.c.  The spec writes them as arithmetic on times
  (\<open>timeToGo += interval\<close>, \<open>slot = deltaTmax / noOfPackets\<close>, \<open>slot \<times> packetIndex\<close>,
  \<open>still \<le> now\<close>); the results are kept in timeval form, microseconds below one million.\<close>

definition vos_addTime :: "TRDP_TIME_T \<Rightarrow> TRDP_TIME_T \<Rightarrow> TRDP_TIME_T" where
  "vos_addTime t a = of_usecs (usecs t + usecs a)"

definition vos_cmpTime :: "TRDP_TIME_T \<Rightarrow> TRDP_TIME_T \<Rightarrow> int" where
  "vos_cmpTime a b = (if timercmp_gt a b then 1 else if timercmp_lt a b then - 1 else 0)"

definition vos_divTime :: "TRDP_TIME_T \<Rightarrow> nat \<Rightarrow> TRDP_TIME_T" where
  "vos_divTime t d = of_usecs (usecs t div d)"

definition vos_mulTime :: "TRDP_TIME_T \<Rightarrow> nat \<Rightarrow> TRDP_TIME_T" where
  "vos_mulTime t m = of_usecs (usecs t * m)"

subsection \<open>Frames and queue elements\<close>

text \<open>The header of a PD frame.  Every field holds the number that its bytes on the wire
  denote in network byte order, so \<open>vos_ntohl\<close>/\<open>vos_htonl\<close> and \<open>vos_ntohs\<close>/\<open>vos_htons\<close>
  between the buffer and a host value are the identity here; \<open>frameCheckSum\<close> holds the
  number that its four bytes denote in little-endian order, which is what \<open>MAKE_LE\<close>
  stores.\<close>

record PD_HEADER_T =
  sequenceCounter :: UINT32
  protocolVersion :: UINT16
  msgType :: UINT16
  comId :: UINT32
  etbTopoCnt :: UINT32
  opTrnTopoCnt :: UINT32
  datasetLength :: UINT32
  reserved :: UINT32
  replyComId :: UINT32
  replyIpAddress :: UINT32
  frameCheckSum :: UINT32

record PD_PACKET_T =
  frameHead :: PD_HEADER_T
  data :: "UINT8 list"

definition be16 :: "UINT16 \<Rightarrow> UINT8 list" where
  "be16 w = [ucast (drop_bit 8 w), ucast w]"

definition be32 :: "UINT32 \<Rightarrow> UINT8 list" where
  "be32 w = [ucast (drop_bit 24 w), ucast (drop_bit 16 w), ucast (drop_bit 8 w), ucast w]"

text \<open>The first \<open>sizeof(PD_HEADER_T) - SIZE_OF_FCS\<close> bytes of a header as they stand in the
  buffer: every field before the frame check sum, in network byte order.\<close>

definition header_bytes :: "PD_HEADER_T \<Rightarrow> UINT8 list" where
  "header_bytes h =
     be32 (sequenceCounter h) @ be16 (protocolVersion h) @ be16 (msgType h) @
     be32 (comId h) @ be32 (etbTopoCnt h) @ be32 (opTrnTopoCnt h) @
     be32 (datasetLength h) @ be32 (reserved h) @ be32 (replyComId h) @
     be32 (replyIpAddress h)"

record TRDP_ADDRESSES_T =
  addr_comId :: UINT32
  addr_srcIpAddr :: UINT32
  addr_destIpAddr :: UINT32
  addr_mcGroup :: UINT32
  addr_etbTopoCnt :: UINT32
  addr_opTrnTopoCnt :: UINT32

text \<open>One entry of the per-source list \<open>pSeqCntList\<close>: source address, message type and
  the last sequence counter seen from there.\<close>

type_synonym PD_SEQ_CNT_ENTRY_T = "(UINT32 \<times> UINT16) \<times> UINT32"

text \<open>A queue element.  Queue elements own their frame buffer from creation, so \<open>pFrame\<close>
  holds the frame by value; \<open>pfCbFunction\<close> says whether a callback is registered (its
  invocations are recorded in the session, see below); \<open>pSeqCntList\<close> is \<open>None\<close> for the
  NULL pointer.\<close>

record PD_ELE_T =
  addr :: TRDP_ADDRESSES_T
  pullIpAddress :: UINT32
  curSeqCnt :: UINT32
  curSeqCnt4Pull :: UINT32
  numRxTx :: UINT32
  updPkts :: UINT32
  getPkts :: UINT32
  numMissed :: UINT32
  lastErr :: TRDP_ERR_T
  privFlags :: "TRDP_PRIV_FLAG set"
  pktFlags :: "TRDP_FLAG set"
  interval :: TRDP_TIME_T
  timeToGo :: TRDP_TIME_T
  dataSize :: UINT32
  grossSize :: UINT32
  sendSize :: UINT32
  socketIdx :: int
  pfCbFunction :: bool
  pUserRef :: nat
  pFrame :: PD_PACKET_T
  pSeqCntList :: "PD_SEQ_CNT_ENTRY_T list option"
  lastSrcIP :: UINT32
  magic :: UINT32

text \<open>What a callback is called with: the \<open>TRDP_PD_INFO_T\<close> message, the data pointer
  (\<open>None\<close> for NULL) and the data size.\<close>

record TRDP_PD_INFO_T =
  info_comId :: UINT32
  info_srcIpAddr :: UINT32
  info_destIpAddr :: UINT32
  info_etbTopoCnt :: UINT32
  info_opTrnTopoCnt :: UINT32
  info_msgType :: UINT16
  info_seqCount :: UINT32
  info_protVersion :: UINT16
  info_replyComId :: UINT32
  info_replyIpAddr :: UINT32
  info_pUserRef :: nat
  info_resultCode :: TRDP_ERR_T

record CALLBACK_T =
  cb_msg :: TRDP_PD_INFO_T
  cb_data :: "UINT8 list option"
  cb_dataSize :: UINT32

text \<open>A datagram handed to the socket layer: socket index, destination, frame and size, and
  whether \<open>trdp_pdSend\<close> found it sent in full.\<close>

record SENT_T =
  sent_socketIdx :: int
  sent_destIp :: UINT32
  sent_frame :: PD_PACKET_T
  sent_size :: UINT32
  sent_ok :: bool

record TRDP_PD_STATISTICS_T =
  numRcv :: UINT32
  numCrcErr :: UINT32
  numProtErr :: UINT32
  numTopoErr :: UINT32
  numTimeout :: UINT32
  numSend :: UINT32

text \<open>The session.  The two queues are singly linked lists in the source and lists here.
  The last five fields record what the engine does to the outside, in order: the number of
  clock readings taken so far, the callbacks it invokes, the datagrams it passes to
  \<open>vos_sockSendUDP\<close>, the socket indices it passes to \<open>trdp_releaseSocket\<close>, and the
  elements it frees (as they are when freed).\<close>

record TRDP_SESSION_T =
  pSndQueue :: "PD_ELE_T list"
  pRcvQueue :: "PD_ELE_T list"
  pNewFrame :: PD_PACKET_T
  ses_etbTopoCnt :: UINT32
  ses_opTrnTopoCnt :: UINT32
  nextJob :: TRDP_TIME_T
  stats_pd :: TRDP_PD_STATISTICS_T
  ticks :: nat
  callbacks :: "CALLBACK_T list"
  sent :: "SENT_T list"
  released :: "int list"
  freed :: "PD_ELE_T list"

text \<open>A marshalling function: from the ComId, the source bytes, the source size and the
  frame's data area to the return code, the data area as it leaves it and the size it writes
  back.\<close>

type_synonym TRDP_MARSHALL_T =
  "UINT32 \<Rightarrow> UINT8 list \<Rightarrow> UINT32 \<Rightarrow> UINT8 list \<Rightarrow> TRDP_ERR_T \<times> UINT8 list \<times> UINT32"


text \<open>The collaborators and constants that trdp\_pdcom.c takes from elsewhere, as
  parameters: the protocol version and its mask, the smallest and the largest frame size,
  the capacity of a per-source list, the CRC (\<open>vos_crc32\<close> started with \<open>INITFCS\<close>), the
  clock (the reading of the n-th call of \<open>vos_getTime\<close>), the allocator (whether a request of
  a size succeeds), the socket send (at a clock tick, on a socket, to a destination, of a
  size: success and the number of bytes sent), the address match that
  \<open>trdp_queueFindSubAddr\<close> applies to a subscriber's and an incoming address, and
  \<open>trdp_pdPrepareStats\<close>.\<close>

record TRDP_ENV =
  TRDP_PROTO_VER :: UINT16
  TRDP_PROTOCOL_VERSION_CHECK_MASK :: UINT16
  TRDP_MIN_PD_HEADER_SIZE :: UINT32
  TRDP_MAX_PD_PACKET_SIZE :: UINT32
  TRDP_SEQ_CNT_LIST_MAX :: nat
  vos_crc32 :: "UINT8 list \<Rightarrow> UINT32"
  vos_getTime :: "nat \<Rightarrow> TRDP_TIME_T"
  vos_memAlloc :: "UINT32 \<Rightarrow> bool"
  vos_sockSendUDP :: "nat \<Rightarrow> int \<Rightarrow> UINT32 \<Rightarrow> UINT32 \<Rightarrow> bool \<times> UINT32"
  subAddrMatch :: "TRDP_ADDRESSES_T \<Rightarrow> TRDP_ADDRESSES_T \<Rightarrow> bool"
  trdp_pdPrepareStats :: "TRDP_SESSION_T \<Rightarrow> PD_ELE_T \<Rightarrow> PD_ELE_T"

subsection \<open>Helpers of trdp\_utils.c\<close>

text \<open>Modelled from the spec: \<open>trdp_packetSizePD\<close> of the absent trdp\_utils.c.  The gross
  size is header plus data, rounded up to a multiple of four; there is no trailer since the
  data FCS was removed.\<close>

definition trdp_packetSizePD :: "UINT32 \<Rightarrow> UINT32" where
  "trdp_packetSizePD n = ((sizeof_PD_HEADER_T + n + 3) div 4) * 4"

text \<open>Modelled from the spec: \<open>trdp_validTopoCounters\<close> of the absent trdp\_utils.c
  (Table A.5).  A pair of counters fails when it is nonzero on both sides and the sides
  disagree.\<close>

definition trdp_validTopoCounters :: "UINT32 \<Rightarrow> UINT32 \<Rightarrow> UINT32 \<Rightarrow> UINT32 \<Rightarrow> bool" where
  "trdp_validTopoCounters etb opTrn etbFilter opTrnFilter =
     (\<not> (etb \<noteq> 0 \<and> etbFilter \<noteq> 0 \<and> etb \<noteq> etbFilter) \<and>
      \<not> (opTrn \<noteq> 0 \<and> opTrnFilter \<noteq> 0 \<and> opTrn \<noteq> opTrnFilter))"






subsection \<open>Access to the frame header of an element\<close>

definition head :: "PD_ELE_T \<Rightarrow> PD_HEADER_T" where
  "head e = frameHead (pFrame e)"

definition upd_head :: "(PD_HEADER_T \<Rightarrow> PD_HEADER_T) \<Rightarrow> PD_ELE_T \<Rightarrow> PD_ELE_T" where
  "upd_head f e = e\<lparr>pFrame := (pFrame e)\<lparr>frameHead := f (frameHead (pFrame e))\<rparr>\<rparr>"

definition getTime :: "TRDP_ENV \<Rightarrow> TRDP_SESSION_T \<Rightarrow> TRDP_TIME_T \<times> TRDP_SESSION_T" where
  "getTime env s = (vos_getTime env (ticks s), s\<lparr>ticks := Suc (ticks s)\<rparr>)"

text \<open>\<open>memcpy(dst, src, n)\<close> on byte buffers: the first \<open>n\<close> bytes of \<open>dst\<close> become those of
  \<open>src\<close> (the caller's buffer holds at least \<open>n\<close> bytes).\<close>

definition memcpy :: "UINT8 list \<Rightarrow> UINT8 list \<Rightarrow> UINT32 \<Rightarrow> UINT8 list" where
  "memcpy dst src n = take (unat n) src @ drop (unat n) dst"

subsection \<open>trdp\_pdInit\<close>


subsection \<open>trdp\_pdPut\<close>

text \<open>The late-data block (the element was created without data): the sizes are set, then
  the larger buffer is requested.  \<open>Inl\<close> is the early return with \<open>TRDP_MEM_ERR\<close>, carrying
  the element as it is left; \<open>Inr\<close> continues.  The new buffer keeps the header; its data
  area is fresh.\<close>

definition pdPut_enlarge :: "TRDP_ENV \<Rightarrow> PD_ELE_T \<Rightarrow> UINT32 \<Rightarrow> PD_ELE_T + PD_ELE_T" where
  "pdPut_enlarge env p dataSz =
     (if dataSize p = 0 then
        (let p1 = p\<lparr>dataSize := dataSz, grossSize := trdp_packetSizePD dataSz\<rparr> in
         if \<not> vos_memAlloc env (grossSize p1) then Inl p1
         else Inr (upd_head (\<lambda>h. h\<lparr>datasetLength := dataSize p1\<rparr>)
                     (p1\<lparr>pFrame := (pFrame p1)\<lparr>data := []\<rparr>\<rparr>)))
      else Inr p)"

definition set_data_valid :: "PD_ELE_T \<Rightarrow> PD_ELE_T" where
  "set_data_valid p =
     p\<lparr>privFlags := privFlags p - {TRDP_INVALID_DATA}, updPkts := updPkts p + 1\<rparr>"

text \<open>Copying or marshalling the data into the frame, with the size check.\<close>

definition pdPut_copy ::
  "PD_ELE_T \<Rightarrow> TRDP_MARSHALL_T option \<Rightarrow> UINT8 list \<Rightarrow> UINT32 \<Rightarrow> TRDP_ERR_T \<times> PD_ELE_T" where
  "pdPut_copy p marshall d dataSz =
     (case (if TRDP_FLAGS_MARSHALL \<in> pktFlags p then marshall else None) of
        None \<Rightarrow>
          if dataSz > TRDP_MAX_PD_DATA_SIZE then (TRDP_PARAM_ERR, p)
          else (TRDP_NO_ERR,
                set_data_valid (p\<lparr>pFrame := (pFrame p)\<lparr>data := memcpy (data (pFrame p)) d dataSz\<rparr>\<rparr>))
      | Some m \<Rightarrow>
          (case m (addr_comId (addr p)) d dataSz (data (pFrame p)) of
             (ret, out, sz) \<Rightarrow>
               (let p1 = p\<lparr>pFrame := (pFrame p)\<lparr>data := out\<rparr>\<rparr> in
                if sz > TRDP_MAX_PD_DATA_SIZE then (TRDP_PARAM_ERR, p1)
                else
                  (let p2 = upd_head (\<lambda>h. h\<lparr>datasetLength := sz\<rparr>)
                              (p1\<lparr>dataSize := sz, grossSize := trdp_packetSizePD sz\<rparr>) in
                   if ret = TRDP_NO_ERR then (ret, set_data_valid p2) else (ret, p2)))))"

text \<open>\<open>trdp_pdPut\<close>: the element pointer and the data pointer may be NULL (\<open>None\<close>).  The
  result is the return code and the element as the call leaves it.\<close>

definition trdp_pdPut ::
  "TRDP_ENV \<Rightarrow> PD_ELE_T option \<Rightarrow> TRDP_MARSHALL_T option \<Rightarrow> UINT8 list option \<Rightarrow> UINT32 \<Rightarrow>
   TRDP_ERR_T \<times> PD_ELE_T option" where
  "trdp_pdPut env pPacket marshall pData dataSz =
     (case pPacket of
        None \<Rightarrow> (TRDP_PARAM_ERR, None)
      | Some p \<Rightarrow>
          if dataSize p = 0 \<and> dataSz = 0 then (TRDP_NO_ERR, Some (set_data_valid p))
          else
            (case pData of
               None \<Rightarrow> (TRDP_NO_ERR, Some p)
             | Some d \<Rightarrow>
                 if dataSz \<noteq> 0 then
                   (case pdPut_enlarge env p dataSz of
                      Inl p1 \<Rightarrow> (TRDP_MEM_ERR, Some p1)
                    | Inr p1 \<Rightarrow>
                        (case pdPut_copy p1 marshall d dataSz of
                           (ret, p2) \<Rightarrow> (ret, Some p2)))
                 else (TRDP_NO_ERR, Some p)))"

subsection \<open>trdp\_pdCheck\<close>

definition trdp_pdCheck :: "TRDP_ENV \<Rightarrow> PD_HEADER_T \<Rightarrow> UINT32 \<Rightarrow> TRDP_ERR_T" where
  "trdp_pdCheck env pPacket packetSize =
     (if packetSize < TRDP_MIN_PD_HEADER_SIZE env \<or> packetSize > TRDP_MAX_PD_PACKET_SIZE env
      then TRDP_WIRE_ERR
      else
        (let myCRC = vos_crc32 env (header_bytes pPacket) in
         if frameCheckSum pPacket \<noteq> myCRC then TRDP_CRC_ERR
         else if (protocolVersion pPacket AND TRDP_PROTOCOL_VERSION_CHECK_MASK env)
                   \<noteq> (TRDP_PROTO_VER env AND TRDP_PROTOCOL_VERSION_CHECK_MASK env)
                 \<or> datasetLength pPacket > TRDP_MAX_PD_DATA_SIZE
         then TRDP_WIRE_ERR
         else if msgType pPacket \<noteq> TRDP_MSG_PD \<and> msgType pPacket \<noteq> TRDP_MSG_PP
                 \<and> msgType pPacket \<noteq> TRDP_MSG_PR \<and> msgType pPacket \<noteq> TRDP_MSG_PE
         then TRDP_WIRE_ERR
         else TRDP_NO_ERR))"

subsection \<open>trdp\_pdUpdate and trdp\_pdSend\<close>

definition trdp_pdUpdate :: "TRDP_ENV \<Rightarrow> PD_ELE_T \<Rightarrow> PD_ELE_T" where
  "trdp_pdUpdate env pPacket =
     (let p1 =
        (if msgType (head pPacket) = TRDP_MSG_PP
         then upd_head (\<lambda>h. h\<lparr>sequenceCounter := curSeqCnt4Pull pPacket + 1\<rparr>)
                (pPacket\<lparr>curSeqCnt4Pull := curSeqCnt4Pull pPacket + 1\<rparr>)
         else upd_head (\<lambda>h. h\<lparr>sequenceCounter := curSeqCnt pPacket + 1\<rparr>)
                (pPacket\<lparr>curSeqCnt := curSeqCnt pPacket + 1\<rparr>));
          myCRC = vos_crc32 env (header_bytes (head p1))
      in upd_head (\<lambda>h. h\<lparr>frameCheckSum := myCRC\<rparr>) p1)"

text \<open>\<open>trdp_pdSend\<close> on the socket with index \<open>pdSock\<close>: the return code, the element as it is
  left, and the record of the datagram.\<close>

definition trdp_pdSend ::
  "TRDP_ENV \<Rightarrow> nat \<Rightarrow> int \<Rightarrow> PD_ELE_T \<Rightarrow> TRDP_ERR_T \<times> PD_ELE_T \<times> SENT_T" where
  "trdp_pdSend env tick pdSock pPacket =
     (let destIp = (if pullIpAddress pPacket \<noteq> 0 then pullIpAddress pPacket
                    else addr_destIpAddr (addr pPacket));
          p1 = (if pullIpAddress pPacket \<noteq> 0 then pPacket\<lparr>pullIpAddress := 0\<rparr> else pPacket);
          p2 = p1\<lparr>sendSize := grossSize p1\<rparr>;
          (ok, n) = vos_sockSendUDP env tick pdSock destIp (sendSize p2);
          p3 = p2\<lparr>sendSize := n\<rparr>;
          res = (if \<not> ok then TRDP_IO_ERR
                 else if sendSize p3 \<noteq> grossSize p3 then TRDP_IO_ERR
                 else TRDP_NO_ERR)
      in (res, p3,
          \<lparr>sent_socketIdx = pdSock, sent_destIp = destIp, sent_frame = pFrame p2,
           sent_size = sendSize p2, sent_ok = (res = TRDP_NO_ERR)\<rparr>))"

subsection \<open>trdp\_pdSendQueued\<close>

text \<open>The message a callback receives, built from an element's frame header.\<close>

definition pdInfo :: "PD_ELE_T \<Rightarrow> UINT32 \<Rightarrow> UINT32 \<Rightarrow> UINT32 \<Rightarrow> TRDP_ERR_T \<Rightarrow> TRDP_PD_INFO_T" where
  "pdInfo e srcIp destIp seqCnt err =
     \<lparr>info_comId = addr_comId (addr e),
      info_srcIpAddr = srcIp,
      info_destIpAddr = destIp,
      info_etbTopoCnt = etbTopoCnt (head e),
      info_opTrnTopoCnt = opTrnTopoCnt (head e),
      info_msgType = msgType (head e),
      info_seqCount = seqCnt,
      info_protVersion = protocolVersion (head e),
      info_replyComId = replyComId (head e),
      info_replyIpAddr = replyIpAddress (head e),
      info_pUserRef = pUserRef e,
      info_resultCode = err\<rparr>"

text \<open>The condition of the loop body: a cyclic element whose time has come, or an element
  marked for immediate sending.\<close>

definition pdSendDue :: "TRDP_TIME_T \<Rightarrow> PD_ELE_T \<Rightarrow> bool" where
  "pdSendDue now e =
     ((timerisset (interval e) \<and> \<not> timercmp_gt (timeToGo e) now)
      \<or> TRDP_REQ_2B_SENT \<in> privFlags e)"

text \<open>The block guarded by "send only if there is valid data": the element, the session
  and the running error code \<open>err\<close> after it.\<close>

definition pdSendEmit ::
  "TRDP_ENV \<Rightarrow> TRDP_SESSION_T \<Rightarrow> TRDP_ERR_T \<Rightarrow> PD_ELE_T \<Rightarrow>
   PD_ELE_T \<times> TRDP_SESSION_T \<times> TRDP_ERR_T" where
  "pdSendEmit env s err e0 =
     (if TRDP_INVALID_DATA \<in> privFlags e0 then (e0, s, err)
      else
        (let e1 = (if TRDP_REQ_2B_SENT \<in> privFlags e0 \<and> msgType (head e0) = TRDP_MSG_PD
                   then upd_head (\<lambda>h. h\<lparr>msgType := TRDP_MSG_PP\<rparr>) e0 else e0);
             e2 = trdp_pdUpdate env e1
         in
           if \<not> trdp_validTopoCounters (ses_etbTopoCnt s) (ses_opTrnTopoCnt s)
                  (etbTopoCnt (head e2)) (opTrnTopoCnt (head e2))
           then (e2, s, TRDP_TOPO_ERR)
           else if socketIdx e2 = TRDP_INVALID_SOCKET_INDEX then (e2, s, err)
           else if TRDP_REDUNDANT \<notin> privFlags e2 then
             (let s1 = (if pfCbFunction e2
                        then s\<lparr>callbacks := callbacks s @
                               [\<lparr>cb_msg = pdInfo e2 (addr_srcIpAddr (addr e2))
                                           (addr_destIpAddr (addr e2)) (curSeqCnt e2) err,
                                 cb_data = Some (data (pFrame e2)),
                                 cb_dataSize = datasetLength (head e2)\<rparr>]\<rparr>
                        else s)
              in case trdp_pdSend env (ticks s1) (socketIdx e2) e2 of
                   (result, e3, dg) \<Rightarrow>
                     (let s2 = s1\<lparr>sent := sent s1 @ [dg]\<rparr> in
                      if result = TRDP_NO_ERR
                      then (e3\<lparr>numRxTx := numRxTx e3 + 1\<rparr>,
                            s2\<lparr>stats_pd := (stats_pd s2)\<lparr>numSend := numSend (stats_pd s2) + 1\<rparr>\<rparr>,
                            err)
                      else (e3, s2, result)))
           else (e2, s, err)))"

text \<open>Restoring the message type of a pull reply or advancing the timer, then clearing the
  immediate flag.\<close>

definition pdSendTimer :: "TRDP_TIME_T \<Rightarrow> PD_ELE_T \<Rightarrow> PD_ELE_T" where
  "pdSendTimer now e =
     (let e1 =
        (if TRDP_REQ_2B_SENT \<in> privFlags e \<and> msgType (head e) = TRDP_MSG_PP
         then upd_head (\<lambda>h. h\<lparr>msgType := TRDP_MSG_PD\<rparr>) e
         else if timerisset (interval e) then
           (let t = vos_addTime (timeToGo e) (interval e) in
            if vos_cmpTime t now \<le> 0
            then e\<lparr>timeToGo := vos_addTime now (interval e)\<rparr>
            else e\<lparr>timeToGo := t\<rparr>)
         else e)
      in e1\<lparr>privFlags := privFlags e1 - {TRDP_REQ_2B_SENT}\<rparr>)"

text \<open>One iteration of the loop on the element under \<open>iterPD\<close>.  \<open>None\<close> says that the element
  was a one-shot request and has been removed: its socket index goes to
  \<open>trdp_releaseSocket\<close>, it is unlinked, its magic is zeroed and it is freed with its list and
  its frame.\<close>

definition pdSendStep ::
  "TRDP_ENV \<Rightarrow> TRDP_SESSION_T \<Rightarrow> TRDP_ERR_T \<Rightarrow> PD_ELE_T \<Rightarrow>
   PD_ELE_T option \<times> TRDP_SESSION_T \<times> TRDP_ERR_T" where
  "pdSendStep env s err e =
     (case getTime env s of
        (now, s0) \<Rightarrow>
          if pdSendDue now e then
            (case pdSendEmit env s0 err e of
               (e1, s1, err1) \<Rightarrow>
                 (let e2 = pdSendTimer now e1 in
                  if msgType (head e2) = TRDP_MSG_PR
                  then (None,
                        s1\<lparr>released := released s1 @ [socketIdx e2],
                           freed := freed s1 @ [e2\<lparr>magic := 0\<rparr>]\<rparr>,
                        err1)
                  else (Some e2, s1, err1)))
          else (Some e, s0, err))"

fun pdSendLoop ::
  "TRDP_ENV \<Rightarrow> PD_ELE_T list \<Rightarrow> TRDP_SESSION_T \<Rightarrow> TRDP_ERR_T \<Rightarrow>
   PD_ELE_T list \<times> TRDP_SESSION_T \<times> TRDP_ERR_T" where
  "pdSendLoop env [] s err = ([], s, err)"
| "pdSendLoop env (e # es) s err =
     (case pdSendStep env s err e of
        (r, s1, err1) \<Rightarrow>
          (case pdSendLoop env es s1 err1 of
             (q, s2, err2) \<Rightarrow> ((case r of None \<Rightarrow> q | Some e' \<Rightarrow> e' # q), s2, err2)))"

definition trdp_pdSendQueued :: "TRDP_ENV \<Rightarrow> TRDP_SESSION_T \<Rightarrow> TRDP_ERR_T \<times> TRDP_SESSION_T" where
  "trdp_pdSendQueued env appHandle =
     (let s0 = appHandle\<lparr>nextJob := timerclear\<rparr> in
      case pdSendLoop env (pSndQueue s0) s0 TRDP_NO_ERR of
        (q, s1, err) \<Rightarrow> (err, s1\<lparr>pSndQueue := q\<rparr>))"

subsection \<open>trdp\_pdHandleTimeOuts\<close>






subsection \<open>trdp\_pdDistribute\<close>

text \<open>The first loop: the smallest interval (below the preset), the latest send time and the
  number of cyclic packets.\<close>

fun pdDistribute_scan ::
  "PD_ELE_T list \<Rightarrow> TRDP_TIME_T \<times> TRDP_TIME_T \<times> nat \<Rightarrow> TRDP_TIME_T \<times> TRDP_TIME_T \<times> nat" where
  "pdDistribute_scan [] acc = acc"
| "pdDistribute_scan (p # ps) (deltaTmax, tNull, noOfPackets) =
     (if tv_sec (interval p) \<noteq> 0 \<or> tv_usec (interval p) \<noteq> 0
      then pdDistribute_scan ps
             (if vos_cmpTime deltaTmax (interval p) > 0 then interval p else deltaTmax,
              if vos_cmpTime tNull (timeToGo p) < 0 then timeToGo p else tNull,
              noOfPackets + 1)
      else pdDistribute_scan ps (deltaTmax, tNull, noOfPackets))"

text \<open>The second loop, from \<open>packetIndex\<close> on.\<close>

fun pdDistribute_assign ::
  "TRDP_TIME_T \<Rightarrow> TRDP_TIME_T \<Rightarrow> nat \<Rightarrow> nat \<Rightarrow> PD_ELE_T list \<Rightarrow> PD_ELE_T list" where
  "pdDistribute_assign deltaTmax tNull noOfPackets packetIndex [] = []"
| "pdDistribute_assign deltaTmax tNull noOfPackets packetIndex (p # ps) =
     (if packetIndex < noOfPackets then
        (if tv_sec (interval p) \<noteq> 0 \<or> tv_usec (interval p) \<noteq> 0 then
           (let temp = vos_mulTime deltaTmax packetIndex;
                nextTime2Go = vos_addTime tNull temp;
                temp2 = vos_mulTime temp 2
            in (if vos_cmpTime temp2 (interval p) > 0 then p
                else p\<lparr>timeToGo := nextTime2Go\<rparr>)
               # pdDistribute_assign deltaTmax tNull noOfPackets (packetIndex + 1) ps)
         else p # pdDistribute_assign deltaTmax tNull noOfPackets packetIndex ps)
      else p # ps)"

definition trdp_pdDistribute :: "PD_ELE_T list \<Rightarrow> TRDP_ERR_T \<times> PD_ELE_T list" where
  "trdp_pdDistribute pSndQ =
     (case pSndQ of
        [] \<Rightarrow> (TRDP_PARAM_ERR, pSndQ)
      | [p] \<Rightarrow> (TRDP_NO_ERR, pSndQ)
      | _ \<Rightarrow>
          (case pdDistribute_scan pSndQ
                  (\<lparr>tv_sec = 1000, tv_usec = 0\<rparr>, \<lparr>tv_sec = 0, tv_usec = 0\<rparr>, 0) of
             (deltaTmax, tNull, noOfPackets) \<Rightarrow>
               if vos_cmpTime deltaTmax \<lparr>tv_sec = 0, tv_usec = 0\<rparr> = 0 \<or> noOfPackets = 0
               then (TRDP_NO_ERR, pSndQ)
               else (TRDP_NO_ERR,
                     pdDistribute_assign (vos_divTime deltaTmax noOfPackets) tNull
                       noOfPackets 0 pSndQ)))"

subsection \<open>trdp\_pdReceive\<close>



text \<open>The accounting of missed packets.\<close>

definition pdReceive_missed :: "UINT32 \<Rightarrow> PD_ELE_T \<Rightarrow> PD_ELE_T" where
  "pdReceive_missed newSeqCnt e =
     (if newSeqCnt > 0 \<and> newSeqCnt > curSeqCnt e + 1
      then e\<lparr>numMissed := numMissed e + (newSeqCnt - curSeqCnt e - 1)\<rparr>
      else if curSeqCnt e > newSeqCnt
      then e\<lparr>numMissed := numMissed e + (UINT32_MAX - curSeqCnt e + newSeqCnt)\<rparr>
      else e)"










subsection \<open>What a send pass leaves alone\<close>

text \<open>\<open>pass_extends s s' n\<close>: session \<open>s'\<close> comes from \<open>s\<close> by \<open>n\<close> clock readings, at most
  \<open>n\<close> more datagrams, more callbacks, released sockets and freed elements, and nothing else
  but the send counter changed.\<close>

definition pass_extends :: "TRDP_SESSION_T \<Rightarrow> TRDP_SESSION_T \<Rightarrow> nat \<Rightarrow> bool" where
  "pass_extends s s' n =
     (ticks s' = ticks s + n \<and>
      (\<exists>xs. sent s' = sent s @ xs \<and> length xs \<le> n) \<and>
      (\<exists>rs. released s' = released s @ rs) \<and>
      (\<exists>fs. freed s' = freed s @ fs) \<and>
      (\<exists>cs. callbacks s' = callbacks s @ cs) \<and>
      ses_etbTopoCnt s' = ses_etbTopoCnt s \<and> ses_opTrnTopoCnt s' = ses_opTrnTopoCnt s \<and>
      pRcvQueue s' = pRcvQueue s \<and> pNewFrame s' = pNewFrame s \<and>
      pSndQueue s' = pSndQueue s \<and> nextJob s' = nextJob s \<and>
      numRcv (stats_pd s') = numRcv (stats_pd s) \<and>
      numCrcErr (stats_pd s') = numCrcErr (stats_pd s) \<and>
      numProtErr (stats_pd s') = numProtErr (stats_pd s) \<and>
      numTopoErr (stats_pd s') = numTopoErr (stats_pd s) \<and>
      numTimeout (stats_pd s') = numTimeout (stats_pd s))"

subsection \<open>Values for worked instances\<close>

text \<open>A header, a frame and an element with every field zero, a session with empty queues,
  and an environment: version 1.0 compared on its major byte, frames of 40 to 1472 bytes,
  a byte sum in the place of the CRC, a clock that advances one second per reading, and an
  allocator and a socket that never fail.\<close>

definition hdr0 :: PD_HEADER_T where
  "hdr0 = \<lparr>sequenceCounter = 0, protocolVersion = 0, msgType = 0, comId = 0, etbTopoCnt = 0,
           opTrnTopoCnt = 0, datasetLength = 0, reserved = 0, replyComId = 0,
           replyIpAddress = 0, frameCheckSum = 0\<rparr>"

definition frame0 :: PD_PACKET_T where
  "frame0 = \<lparr>frameHead = hdr0, data = []\<rparr>"

definition addr0 :: TRDP_ADDRESSES_T where
  "addr0 = \<lparr>addr_comId = 0, addr_srcIpAddr = 0, addr_destIpAddr = 0, addr_mcGroup = 0,
            addr_etbTopoCnt = 0, addr_opTrnTopoCnt = 0\<rparr>"

definition ele0 :: PD_ELE_T where
  "ele0 = \<lparr>addr = addr0, pullIpAddress = 0, curSeqCnt = 0, curSeqCnt4Pull = 0, numRxTx = 0,
           updPkts = 0, getPkts = 0, numMissed = 0, lastErr = TRDP_NO_ERR, privFlags = {},
           pktFlags = {}, interval = timerclear, timeToGo = timerclear, dataSize = 0,
           grossSize = 0, sendSize = 0, socketIdx = 0, pfCbFunction = False, pUserRef = 0,
           pFrame = frame0, pSeqCntList = None, lastSrcIP = 0, magic = 0\<rparr>"

definition stats0 :: TRDP_PD_STATISTICS_T where
  "stats0 = \<lparr>numRcv = 0, numCrcErr = 0, numProtErr = 0, numTopoErr = 0, numTimeout = 0,
             numSend = 0\<rparr>"

definition ses0 :: TRDP_SESSION_T where
  "ses0 = \<lparr>pSndQueue = [], pRcvQueue = [], pNewFrame = frame0, ses_etbTopoCnt = 0,
           ses_opTrnTopoCnt = 0, nextJob = timerclear, stats_pd = stats0, ticks = 0,
           callbacks = [], sent = [], released = [], freed = []\<rparr>"

definition env0 :: TRDP_ENV where
  "env0 = \<lparr>TRDP_PROTO_VER = 0x0100, TRDP_PROTOCOL_VERSION_CHECK_MASK = 0xFF00,
           TRDP_MIN_PD_HEADER_SIZE = 40, TRDP_MAX_PD_PACKET_SIZE = 1472,
           TRDP_SEQ_CNT_LIST_MAX = 64,
           vos_crc32 = (\<lambda>bs. sum_list (map ucast bs)),
           vos_getTime = (\<lambda>n. \<lparr>tv_sec = 100 + n, tv_usec = 0\<rparr>),
           vos_memAlloc = (\<lambda>n. True),
           vos_sockSendUDP = (\<lambda>tick sock ip n. (True, n)),
           subAddrMatch = (\<lambda>sub a. addr_comId sub = addr_comId a),
           trdp_pdPrepareStats = (\<lambda>s e. e)\<rparr>"

text \<open>A cyclic publisher with an interval of one second that was due at second 50, and a
  one-shot request on socket 3 that is marked for sending but has no valid data.\<close>

definition cyclic0 :: PD_ELE_T where
  "cyclic0 = ele0\<lparr>interval := \<lparr>tv_sec = 1, tv_usec = 0\<rparr>, timeToGo := \<lparr>tv_sec = 50, tv_usec = 0\<rparr>,
                 pFrame := \<lparr>frameHead = hdr0\<lparr>msgType := TRDP_MSG_PD\<rparr>, data = []\<rparr>\<rparr>"

definition request0 :: PD_ELE_T where
  "request0 = ele0\<lparr>privFlags := {TRDP_REQ_2B_SENT, TRDP_INVALID_DATA}, socketIdx := 3,
                  pFrame := \<lparr>frameHead = hdr0\<lparr>msgType := TRDP_MSG_PR\<rparr>, data = []\<rparr>\<rparr>"



section \<open>Properties\<close>

subsection \<open>Time values\<close>

lemma usecs_of_usecs [simp]: "usecs (of_usecs n) = n"
  by (simp add: usecs_def of_usecs_def)

lemma normalized_of_usecs [simp]: "normalized (of_usecs n)"
  by (simp add: normalized_def of_usecs_def)

lemma of_usecs_usecs: "normalized t \<Longrightarrow> of_usecs (usecs t) = t"
  by (simp add: usecs_def of_usecs_def normalized_def)





lemma usecs_vos_addTime [simp]: "usecs (vos_addTime a b) = usecs a + usecs b"
  by (simp add: vos_addTime_def)

lemma normalized_vos_addTime [simp]: "normalized (vos_addTime a b)"
  by (simp add: vos_addTime_def)

subsection \<open>trdp\_pdCheck\<close>

lemma length_header_bytes: "length (header_bytes h) = 36"
  by (simp add: header_bytes_def be32_def be16_def)

text \<open>Claim C5.  \<open>trdp_pdCheck\<close> classifies a header and an observed size exactly so: a wire
  error when the size is outside the range from the smallest header to the largest packet;
  otherwise a CRC error when the stored (little-endian) frame check sum differs from the CRC
  over the 36 header bytes before it; otherwise a wire error when the masked protocol version
  differs from the engine's, or the dataset length exceeds 1432, or the message type is none
  of PD, PP, PR, PE; otherwise no error.  So a dataset length of exactly 1432 passes and 1433
  is a wire error.\<close>

theorem pdCheck_classification:
  "length (header_bytes h) = 36 \<and>
   ((trdp_pdCheck env h n = TRDP_WIRE_ERR) =
      (n < TRDP_MIN_PD_HEADER_SIZE env \<or> TRDP_MAX_PD_PACKET_SIZE env < n \<or>
       (frameCheckSum h = vos_crc32 env (header_bytes h) \<and>
        ((protocolVersion h AND TRDP_PROTOCOL_VERSION_CHECK_MASK env)
            \<noteq> (TRDP_PROTO_VER env AND TRDP_PROTOCOL_VERSION_CHECK_MASK env)
         \<or> 1432 < datasetLength h
         \<or> msgType h \<notin> {TRDP_MSG_PD, TRDP_MSG_PP, TRDP_MSG_PR, TRDP_MSG_PE})))) \<and>
   ((trdp_pdCheck env h n = TRDP_CRC_ERR) =
      (TRDP_MIN_PD_HEADER_SIZE env \<le> n \<and> n \<le> TRDP_MAX_PD_PACKET_SIZE env \<and>
       frameCheckSum h \<noteq> vos_crc32 env (header_bytes h))) \<and>
   ((trdp_pdCheck env h n = TRDP_NO_ERR) =
      (TRDP_MIN_PD_HEADER_SIZE env \<le> n \<and> n \<le> TRDP_MAX_PD_PACKET_SIZE env \<and>
       frameCheckSum h = vos_crc32 env (header_bytes h) \<and>
       (protocolVersion h AND TRDP_PROTOCOL_VERSION_CHECK_MASK env)
          = (TRDP_PROTO_VER env AND TRDP_PROTOCOL_VERSION_CHECK_MASK env) \<and>
       datasetLength h \<le> 1432 \<and>
       msgType h \<in> {TRDP_MSG_PD, TRDP_MSG_PP, TRDP_MSG_PR, TRDP_MSG_PE}))"
  by (auto simp: trdp_pdCheck_def Let_def TRDP_MAX_PD_DATA_SIZE_def length_header_bytes)

text \<open>At the boundary: a PD header of version 1.0 with dataset length 1432 and a matching
  check sum passes at size 1472, with 1433 it is a wire error, with a wrong check sum a CRC
  error, and at size 39 a wire error.\<close>

theorem pdCheck_classification_witness:
  "trdp_pdCheck env0
     (hdr0\<lparr>protocolVersion := 0x0100, msgType := TRDP_MSG_PD, datasetLength := 1432,
           frameCheckSum := 338\<rparr>) 1472 = TRDP_NO_ERR \<and>
   trdp_pdCheck env0
     (hdr0\<lparr>protocolVersion := 0x0100, msgType := TRDP_MSG_PD, datasetLength := 1433,
           frameCheckSum := 339\<rparr>) 1472 = TRDP_WIRE_ERR \<and>
   trdp_pdCheck env0
     (hdr0\<lparr>protocolVersion := 0x0100, msgType := TRDP_MSG_PD, datasetLength := 1432,
           frameCheckSum := 1\<rparr>) 1472 = TRDP_CRC_ERR \<and>
   trdp_pdCheck env0
     (hdr0\<lparr>protocolVersion := 0x0100, msgType := TRDP_MSG_PD, datasetLength := 1432,
           frameCheckSum := 338\<rparr>) 39 = TRDP_WIRE_ERR"
  using pdCheck_classification [of "hdr0\<lparr>protocolVersion := 0x0100, msgType := TRDP_MSG_PD,
      datasetLength := 1432, frameCheckSum := 338\<rparr>" env0 1472]
    pdCheck_classification [of "hdr0\<lparr>protocolVersion := 0x0100, msgType := TRDP_MSG_PD,
      datasetLength := 1433, frameCheckSum := 339\<rparr>" env0 1472]
    pdCheck_classification [of "hdr0\<lparr>protocolVersion := 0x0100, msgType := TRDP_MSG_PD,
      datasetLength := 1432, frameCheckSum := 1\<rparr>" env0 1472]
    pdCheck_classification [of "hdr0\<lparr>protocolVersion := 0x0100, msgType := TRDP_MSG_PD,
      datasetLength := 1432, frameCheckSum := 338\<rparr>" env0 39]
  by (simp add: env0_def hdr0_def header_bytes_def be32_def be16_def TRDP_MSG_PD_def
      TRDP_MSG_PP_def TRDP_MSG_PR_def TRDP_MSG_PE_def)

subsection \<open>trdp\_pdPut\<close>

text \<open>Claim C9.  On a non-null element, a call with a NULL data pointer and a nonzero size,
  or with a data pointer and size zero on an element that has data, returns no error and
  leaves the whole element as it was: payload, sizes, flags and counters.\<close>

theorem pdPut_silent_noop:
  "(pData = None \<and> dataSz \<noteq> 0) \<or> (pData \<noteq> None \<and> dataSz = 0 \<and> dataSize p \<noteq> 0) \<Longrightarrow>
   trdp_pdPut env (Some p) marshall pData dataSz = (TRDP_NO_ERR, Some p)"
  by (auto simp: trdp_pdPut_def split: option.splits)

theorem pdPut_silent_noop_witness:
  "trdp_pdPut env0 (Some ele0) None None 2000 = (TRDP_NO_ERR, Some ele0) \<and>
   trdp_pdPut env0 (Some (ele0\<lparr>dataSize := 8\<rparr>)) None (Some [1, 2, 3]) 0
     = (TRDP_NO_ERR, Some (ele0\<lparr>dataSize := 8\<rparr>))"
  using pdPut_silent_noop [of None 2000 ele0 env0 None]
    pdPut_silent_noop [of "Some [1, 2, 3]" 0 "ele0\<lparr>dataSize := 8\<rparr>" env0 None]
  by simp






subsection \<open>trdp\_pdSendQueued: one element\<close>

lemma pass_extends_refl: "pass_extends s s 0"
  by (simp add: pass_extends_def)

lemma pass_extends_trans:
  "pass_extends s s' m \<Longrightarrow> pass_extends s' s'' n \<Longrightarrow> pass_extends s s'' (m + n)"
  unfolding pass_extends_def
  apply (elim conjE exE)
  apply (intro conjI)
  apply simp_all
  done

lemma pdUpdate_keeps:
  "interval (trdp_pdUpdate env e) = interval e \<and> timeToGo (trdp_pdUpdate env e) = timeToGo e \<and>
   privFlags (trdp_pdUpdate env e) = privFlags e \<and> socketIdx (trdp_pdUpdate env e) = socketIdx e \<and>
   addr (trdp_pdUpdate env e) = addr e \<and> pullIpAddress (trdp_pdUpdate env e) = pullIpAddress e \<and>
   pSeqCntList (trdp_pdUpdate env e) = pSeqCntList e \<and>
   msgType (head (trdp_pdUpdate env e)) = msgType (head e) \<and>
   comId (head (trdp_pdUpdate env e)) = comId (head e) \<and>
   etbTopoCnt (head (trdp_pdUpdate env e)) = etbTopoCnt (head e) \<and>
   opTrnTopoCnt (head (trdp_pdUpdate env e)) = opTrnTopoCnt (head e) \<and>
   curSeqCnt4Pull (trdp_pdUpdate env e) =
     (if msgType (head e) = TRDP_MSG_PP then curSeqCnt4Pull e + 1 else curSeqCnt4Pull e) \<and>
   curSeqCnt (trdp_pdUpdate env e) =
     (if msgType (head e) = TRDP_MSG_PP then curSeqCnt e else curSeqCnt e + 1) \<and>
   sequenceCounter (head (trdp_pdUpdate env e)) =
     (if msgType (head e) = TRDP_MSG_PP then curSeqCnt4Pull e + 1 else curSeqCnt e + 1)"
  by (simp add: trdp_pdUpdate_def upd_head_def head_def Let_def)

lemma pdSend_keeps:
  assumes "trdp_pdSend env k sock e = (r, e', dg)"
  shows "interval e' = interval e \<and> timeToGo e' = timeToGo e \<and> privFlags e' = privFlags e \<and>
    socketIdx e' = socketIdx e \<and> addr e' = addr e \<and> pFrame e' = pFrame e \<and>
    pSeqCntList e' = pSeqCntList e \<and>
    curSeqCnt e' = curSeqCnt e \<and> curSeqCnt4Pull e' = curSeqCnt4Pull e \<and>
    pullIpAddress e' = 0 \<and>
    sent_destIp dg = (if pullIpAddress e \<noteq> 0 then pullIpAddress e else addr_destIpAddr (addr e)) \<and>
    sent_frame dg = pFrame e \<and> sent_socketIdx dg = sock \<and> sent_ok dg = (r = TRDP_NO_ERR)"
  using assms by (auto simp: trdp_pdSend_def Let_def split: prod.splits if_splits)

text \<open>The emission block changes neither the timing nor the flags of the element; it turns
  the message type PD into PP exactly for a requested element with valid data.\<close>

lemma pdSendEmit_keeps:
  assumes "pdSendEmit env s err e = (e1, s1, err1)"
  shows "interval e1 = interval e \<and> timeToGo e1 = timeToGo e \<and> privFlags e1 = privFlags e \<and>
    socketIdx e1 = socketIdx e \<and> addr e1 = addr e \<and> pSeqCntList e1 = pSeqCntList e \<and>
    msgType (head e1) =
      (if TRDP_REQ_2B_SENT \<in> privFlags e \<and> TRDP_INVALID_DATA \<notin> privFlags e \<and>
          msgType (head e) = TRDP_MSG_PD
       then TRDP_MSG_PP else msgType (head e))"
proof (cases "TRDP_INVALID_DATA \<in> privFlags e")
  case True
  with assms show ?thesis by (simp add: pdSendEmit_def)
next
  case False
  define e0 where "e0 = (if TRDP_REQ_2B_SENT \<in> privFlags e \<and> msgType (head e) = TRDP_MSG_PD
                   then upd_head (\<lambda>h. h\<lparr>msgType := TRDP_MSG_PP\<rparr>) e else e)"
  have e0: "interval e0 = interval e \<and> timeToGo e0 = timeToGo e \<and> privFlags e0 = privFlags e \<and>
    socketIdx e0 = socketIdx e \<and> addr e0 = addr e \<and> pSeqCntList e0 = pSeqCntList e \<and>
    msgType (head e0) = (if TRDP_REQ_2B_SENT \<in> privFlags e \<and> msgType (head e) = TRDP_MSG_PD
       then TRDP_MSG_PP else msgType (head e))"
    by (simp add: e0_def upd_head_def head_def)
  note u = pdUpdate_keeps [of env e0]
  from assms False show ?thesis
    unfolding pdSendEmit_def Let_def e0_def [symmetric]
    using e0 u
    by (auto split: if_splits prod.splits dest!: pdSend_keeps simp: head_def)
qed

lemma pdSendEmit_session:
  assumes "pdSendEmit env s err e = (e1, s1, err1)"
  shows "ticks s1 = ticks s \<and> (\<exists>xs. sent s1 = sent s @ xs \<and> length xs \<le> 1) \<and>
    released s1 = released s \<and> freed s1 = freed s \<and>
    (\<exists>cs. callbacks s1 = callbacks s @ cs) \<and>
    ses_etbTopoCnt s1 = ses_etbTopoCnt s \<and> ses_opTrnTopoCnt s1 = ses_opTrnTopoCnt s \<and>
    pRcvQueue s1 = pRcvQueue s \<and> pNewFrame s1 = pNewFrame s \<and>
    pSndQueue s1 = pSndQueue s \<and> nextJob s1 = nextJob s \<and>
    numRcv (stats_pd s1) = numRcv (stats_pd s) \<and>
    numCrcErr (stats_pd s1) = numCrcErr (stats_pd s) \<and>
    numProtErr (stats_pd s1) = numProtErr (stats_pd s) \<and>
    numTopoErr (stats_pd s1) = numTopoErr (stats_pd s) \<and>
    numTimeout (stats_pd s1) = numTimeout (stats_pd s)"
  using assms
  by (auto simp: pdSendEmit_def Let_def split: if_splits prod.splits)

lemma pdSendStep_extends:
  assumes "pdSendStep env s err e = (r, s', err')"
  shows "pass_extends s s' 1"
proof (cases "pdSendDue (vos_getTime env (ticks s)) e")
  case False
  with assms show ?thesis
    by (auto simp: pdSendStep_def getTime_def pass_extends_def)
next
  case True
  obtain e1 s1 err1 where em: "pdSendEmit env (s\<lparr>ticks := Suc (ticks s)\<rparr>) err e = (e1, s1, err1)"
    by (cases "pdSendEmit env (s\<lparr>ticks := Suc (ticks s)\<rparr>) err e") auto
  note k = pdSendEmit_session [OF em]
  from assms True em k show ?thesis
    by (auto simp: pdSendStep_def getTime_def pass_extends_def Let_def split: if_splits)
qed

lemma pdSendLoop_extends:
  "pdSendLoop env q s err = (q', s', err') \<Longrightarrow>
   pass_extends s s' (length q) \<and> length q' \<le> length q"
proof (induction q arbitrary: s err q' s' err')
  case Nil
  then show ?case by (simp add: pass_extends_refl)
next
  case (Cons e es)
  obtain r s1 err1 where st: "pdSendStep env s err e = (r, s1, err1)"
    by (cases "pdSendStep env s err e") auto
  obtain q2 s2 err2 where lp: "pdSendLoop env es s1 err1 = (q2, s2, err2)"
    by (cases "pdSendLoop env es s1 err1") auto
  from Cons.prems st lp have res: "s' = s2" "q' = (case r of None \<Rightarrow> q2 | Some x \<Rightarrow> x # q2)"
    by auto
  from Cons.IH [OF lp] have ih: "pass_extends s1 s2 (length es)" "length q2 \<le> length es"
    by auto
  from pass_extends_trans [OF pdSendStep_extends [OF st] ih(1)] ih(2) res show ?case
    by (auto split: option.splits)
qed

text \<open>The pass over a queue is the pass over its front followed by the pass over its rest.\<close>

lemma pdSendLoop_append:
  "pdSendLoop env (xs @ ys) s err =
     (case pdSendLoop env xs s err of
        (q1, s1, err1) \<Rightarrow>
          (case pdSendLoop env ys s1 err1 of
             (q2, s2, err2) \<Rightarrow> (q1 @ q2, s2, err2)))"
  by (induction xs arbitrary: s err) (auto split: prod.splits option.splits)

text \<open>The whole pass, seen from one element of the queue: the elements before it are
  processed, then the element at the clock reading that follows them, then the rest.\<close>

lemma pdSendQueued_split:
  assumes "pSndQueue a = pre @ e # post"
  shows "\<exists>q1 s1 err1 r s2 err2 q3 s3 err3.
    pdSendStep env s1 err1 e = (r, s2, err2) \<and>
    trdp_pdSendQueued env a =
      (err3, s3\<lparr>pSndQueue := q1 @ (case r of None \<Rightarrow> [] | Some e' \<Rightarrow> [e']) @ q3\<rparr>) \<and>
    pass_extends (a\<lparr>nextJob := timerclear\<rparr>) s1 (length pre) \<and> length q1 \<le> length pre \<and>
    pass_extends s2 s3 (length post) \<and> length q3 \<le> length post"
proof -
  let ?a = "a\<lparr>nextJob := timerclear\<rparr>"
  obtain q1 s1 err1 where l1: "pdSendLoop env pre ?a TRDP_NO_ERR = (q1, s1, err1)"
    by (cases "pdSendLoop env pre ?a TRDP_NO_ERR") auto
  obtain r s2 err2 where st: "pdSendStep env s1 err1 e = (r, s2, err2)"
    by (cases "pdSendStep env s1 err1 e") auto
  obtain q3 s3 err3 where l3: "pdSendLoop env post s2 err2 = (q3, s3, err3)"
    by (cases "pdSendLoop env post s2 err2") auto
  have "trdp_pdSendQueued env a =
      (err3, s3\<lparr>pSndQueue := q1 @ (case r of None \<Rightarrow> [] | Some e' \<Rightarrow> [e']) @ q3\<rparr>)"
    using assms l1 st l3
    by (simp add: trdp_pdSendQueued_def Let_def pdSendLoop_append split: option.splits)
  with st pdSendLoop_extends [OF l1] pdSendLoop_extends [OF l3] show ?thesis
    by blast
qed

lemma pdSendTimer_keeps:
  "socketIdx (pdSendTimer now e) = socketIdx e \<and> addr (pdSendTimer now e) = addr e \<and>
   pSeqCntList (pdSendTimer now e) = pSeqCntList e \<and> interval (pdSendTimer now e) = interval e \<and>
   TRDP_REQ_2B_SENT \<notin> privFlags (pdSendTimer now e) \<and>
   msgType (head (pdSendTimer now e)) =
     (if TRDP_REQ_2B_SENT \<in> privFlags e \<and> msgType (head e) = TRDP_MSG_PP
      then TRDP_MSG_PD else msgType (head e))"
  by (simp add: pdSendTimer_def Let_def upd_head_def head_def)


lemma pdSendTimer_pull:
  assumes "TRDP_REQ_2B_SENT \<in> privFlags e" and "msgType (head e) = TRDP_MSG_PP"
  shows "timeToGo (pdSendTimer now e) = timeToGo e \<and>
    msgType (head (pdSendTimer now e)) = TRDP_MSG_PD"
  using assms by (simp add: pdSendTimer_def Let_def upd_head_def head_def)

text \<open>A request element that is left in the queue was not due when it was visited, and is
  untouched.\<close>

lemma pdSendStep_PR_left:
  assumes "pdSendStep env s err e = (Some x, s1, err1)" and "msgType (head x) = TRDP_MSG_PR"
  shows "x = e \<and> \<not> pdSendDue (vos_getTime env (ticks s)) e"
  using assms
  by (auto simp: pdSendStep_def getTime_def Let_def split: if_splits prod.splits)

lemma pdSendLoop_PR_left:
  "pdSendLoop env q s err = (q', s', err') \<Longrightarrow> x \<in> set q' \<Longrightarrow> msgType (head x) = TRDP_MSG_PR \<Longrightarrow>
   \<exists>i<length q. x = q ! i \<and> \<not> pdSendDue (vos_getTime env (ticks s + i)) x"
proof (induction q arbitrary: s err q' s' err')
  case Nil
  then show ?case by simp
next
  case (Cons e es)
  obtain r s1 err1 where st: "pdSendStep env s err e = (r, s1, err1)"
    by (cases "pdSendStep env s err e") auto
  obtain q2 s2 err2 where lp: "pdSendLoop env es s1 err1 = (q2, s2, err2)"
    by (cases "pdSendLoop env es s1 err1") auto
  from Cons.prems(1) st lp have res: "q' = (case r of None \<Rightarrow> q2 | Some y \<Rightarrow> y # q2)"
    by auto
  have t1: "ticks s1 = Suc (ticks s)"
    using pdSendStep_extends [OF st] by (simp add: pass_extends_def)
  show ?case
  proof (cases "x \<in> set q2")
    case True
    from Cons.IH [OF lp True Cons.prems(3)] obtain i where
      "i < length es" "x = es ! i" "\<not> pdSendDue (vos_getTime env (ticks s1 + i)) x"
      by blast
    then have "Suc i < length (e # es) \<and> x = (e # es) ! Suc i \<and>
        \<not> pdSendDue (vos_getTime env (ticks s + Suc i)) x"
      using t1 by simp
    then show ?thesis by blast
  next
    case False
    with Cons.prems(2) res have r: "r = Some x"
      by (cases r) auto
    from pdSendStep_PR_left [OF st [unfolded r] Cons.prems(3)]
    have "0 < length (e # es) \<and> x = (e # es) ! 0 \<and>
        \<not> pdSendDue (vos_getTime env (ticks s + 0)) x"
      by simp
    then show ?thesis by blast
  qed
qed

text \<open>A due request element is removed.\<close>

lemma pdSendStep_PR_due:
  assumes "pdSendStep env s err e = (r, s', err')"
    and "pdSendDue (vos_getTime env (ticks s)) e" and "msgType (head e) = TRDP_MSG_PR"
  shows "r = None \<and> released s' = released s @ [socketIdx e] \<and>
    (\<exists>f. freed s' = freed s @ [f] \<and> magic f = 0 \<and> addr f = addr e \<and>
       pSeqCntList f = pSeqCntList e \<and> msgType (head f) = TRDP_MSG_PR)"
proof -
  let ?now = "vos_getTime env (ticks s)"
  obtain e1 s1 err1 where em: "pdSendEmit env (s\<lparr>ticks := Suc (ticks s)\<rparr>) err e = (e1, s1, err1)"
    by (cases "pdSendEmit env (s\<lparr>ticks := Suc (ticks s)\<rparr>) err e") auto
  note k = pdSendEmit_keeps [OF em] and ks = pdSendEmit_session [OF em]
    and t = pdSendTimer_keeps [of ?now e1]
  have pr: "msgType (head (pdSendTimer ?now e1)) = TRDP_MSG_PR"
    using k t assms(3)
    by (auto simp: TRDP_MSG_PR_def TRDP_MSG_PD_def TRDP_MSG_PP_def split: if_splits)
  have res: "r = None" "s' = s1\<lparr>released := released s1 @ [socketIdx (pdSendTimer ?now e1)],
        freed := freed s1 @ [(pdSendTimer ?now e1)\<lparr>magic := 0\<rparr>]\<rparr>"
    using assms(1,2) em pr by (auto simp: pdSendStep_def getTime_def Let_def)
  have f: "magic ((pdSendTimer ?now e1)\<lparr>magic := 0\<rparr>) = 0 \<and>
      addr ((pdSendTimer ?now e1)\<lparr>magic := 0\<rparr>) = addr e \<and>
      pSeqCntList ((pdSendTimer ?now e1)\<lparr>magic := 0\<rparr>) = pSeqCntList e \<and>
      msgType (head ((pdSendTimer ?now e1)\<lparr>magic := 0\<rparr>)) = TRDP_MSG_PR"
    using k t pr by (simp add: head_def)
  from res k ks t f show ?thesis
    by auto
qed

subsection \<open>trdp\_pdSendQueued: the pass\<close>



text \<open>Claim C10.  A request element (message type PR) that is due when the pass reaches it
  is gone after the pass, whatever happened to its frame: its socket index has been passed to
  \<open>trdp_releaseSocket\<close>, it is unlinked from the queue, and it has been freed with its magic
  zeroed, together with its per-source list and frame.  Every request element that the pass
  leaves in the queue is an element that was not due when it was visited.\<close>

theorem pdSendQueued_request_removed:
  assumes q: "pSndQueue a = pre @ e # post"
    and due: "pdSendDue (vos_getTime env (ticks a + length pre)) e"
    and pr: "msgType (head e) = TRDP_MSG_PR"
  shows "(\<exists>q1 q3 r1 r3 f1 f f3.
      pSndQueue (snd (trdp_pdSendQueued env a)) = q1 @ q3 \<and>
      length q1 \<le> length pre \<and> length q3 \<le> length post \<and>
      released (snd (trdp_pdSendQueued env a)) = released a @ r1 @ socketIdx e # r3 \<and>
      freed (snd (trdp_pdSendQueued env a)) = freed a @ f1 @ f # f3 \<and>
      magic f = 0 \<and> addr f = addr e \<and> pSeqCntList f = pSeqCntList e \<and>
      msgType (head f) = TRDP_MSG_PR) \<and>
    (\<forall>x \<in> set (pSndQueue (snd (trdp_pdSendQueued env a))).
       msgType (head x) = TRDP_MSG_PR \<longrightarrow>
       (\<exists>i<length (pSndQueue a). x = pSndQueue a ! i \<and>
          \<not> pdSendDue (vos_getTime env (ticks a + i)) x))"
proof
  from pdSendQueued_split [OF q, of env] obtain q1 s1 err1 r s2 err2 q3 s3 err3 where
    st: "pdSendStep env s1 err1 e = (r, s2, err2)" and
    res: "trdp_pdSendQueued env a =
      (err3, s3\<lparr>pSndQueue := q1 @ (case r of None \<Rightarrow> [] | Some e' \<Rightarrow> [e']) @ q3\<rparr>)" and
    p1: "pass_extends (a\<lparr>nextJob := timerclear\<rparr>) s1 (length pre)" and l1: "length q1 \<le> length pre" and
    p3: "pass_extends s2 s3 (length post)" and l3: "length q3 \<le> length post"
    by blast
  have t1: "ticks s1 = ticks a + length pre"
    using p1 by (simp add: pass_extends_def)
  from pdSendStep_PR_due [OF st _ pr] due t1 obtain f where
    r: "r = None" and rel: "released s2 = released s1 @ [socketIdx e]" and
    fr: "freed s2 = freed s1 @ [f]" "magic f = 0" "addr f = addr e"
      "pSeqCntList f = pSeqCntList e" "msgType (head f) = TRDP_MSG_PR"
    by auto
  from p1 obtain r1 f1 where a1: "released s1 = released a @ r1" "freed s1 = freed a @ f1"
    by (auto simp: pass_extends_def)
  from p3 obtain r3 f3 where a3: "released s3 = released s2 @ r3" "freed s3 = freed s2 @ f3"
    by (auto simp: pass_extends_def)
  have "pSndQueue (snd (trdp_pdSendQueued env a)) = q1 @ q3"
    using res r by simp
  moreover have "released (snd (trdp_pdSendQueued env a)) = released a @ r1 @ socketIdx e # r3"
    using res rel a1 a3 by simp
  moreover have "freed (snd (trdp_pdSendQueued env a)) = freed a @ f1 @ f # f3"
    using res fr(1) a1 a3 by simp
  ultimately show "\<exists>q1 q3 r1 r3 f1 f f3.
      pSndQueue (snd (trdp_pdSendQueued env a)) = q1 @ q3 \<and>
      length q1 \<le> length pre \<and> length q3 \<le> length post \<and>
      released (snd (trdp_pdSendQueued env a)) = released a @ r1 @ socketIdx e # r3 \<and>
      freed (snd (trdp_pdSendQueued env a)) = freed a @ f1 @ f # f3 \<and>
      magic f = 0 \<and> addr f = addr e \<and> pSeqCntList f = pSeqCntList e \<and>
      msgType (head f) = TRDP_MSG_PR"
    using l1 l3 fr(2-) by blast
next
  show "\<forall>x \<in> set (pSndQueue (snd (trdp_pdSendQueued env a))).
       msgType (head x) = TRDP_MSG_PR \<longrightarrow>
       (\<exists>i<length (pSndQueue a). x = pSndQueue a ! i \<and>
          \<not> pdSendDue (vos_getTime env (ticks a + i)) x)"
  proof (intro ballI impI)
    fix x
    assume x: "x \<in> set (pSndQueue (snd (trdp_pdSendQueued env a)))"
      and m: "msgType (head x) = TRDP_MSG_PR"
    obtain q' s' err' where
      lp: "pdSendLoop env (pSndQueue a) (a\<lparr>nextJob := timerclear\<rparr>) TRDP_NO_ERR = (q', s', err')"
      by (cases "pdSendLoop env (pSndQueue a) (a\<lparr>nextJob := timerclear\<rparr>) TRDP_NO_ERR") auto
    then have "pSndQueue (snd (trdp_pdSendQueued env a)) = q'"
      by (simp add: trdp_pdSendQueued_def Let_def)
    with x have "x \<in> set q'" by simp
    from pdSendLoop_PR_left [OF lp this m] show
      "\<exists>i<length (pSndQueue a). x = pSndQueue a ! i \<and>
          \<not> pdSendDue (vos_getTime env (ticks a + i)) x"
      by simp
  qed
qed

text \<open>A pass over \<open>cyclic0\<close> and the request \<open>request0\<close>, which has no valid data: the
  request is removed, socket 3 released.\<close>

theorem pdSendQueued_request_removed_witness:
  "\<exists>q1 q3 r1 r3 f1 f f3.
      pSndQueue (snd (trdp_pdSendQueued env0 (ses0\<lparr>pSndQueue := [cyclic0, request0]\<rparr>))) = q1 @ q3 \<and>
      length q1 \<le> 1 \<and> length q3 \<le> 0 \<and>
      released (snd (trdp_pdSendQueued env0 (ses0\<lparr>pSndQueue := [cyclic0, request0]\<rparr>)))
        = r1 @ 3 # r3 \<and>
      freed (snd (trdp_pdSendQueued env0 (ses0\<lparr>pSndQueue := [cyclic0, request0]\<rparr>)))
        = f1 @ f # f3 \<and>
      magic f = 0 \<and> addr f = addr0 \<and> pSeqCntList f = None \<and>
      msgType (head f) = TRDP_MSG_PR"
proof -
  have q: "pSndQueue (ses0\<lparr>pSndQueue := [cyclic0, request0]\<rparr>) = [cyclic0] @ request0 # []"
    by simp
  have due: "pdSendDue (vos_getTime env0 (ticks (ses0\<lparr>pSndQueue := [cyclic0, request0]\<rparr>)
      + length [cyclic0])) request0"
    by (simp add: pdSendDue_def request0_def)
  have pr: "msgType (head request0) = TRDP_MSG_PR"
    by (simp add: request0_def head_def)
  have v: "socketIdx request0 = 3" "addr request0 = addr0" "pSeqCntList request0 = None"
    "released (ses0\<lparr>pSndQueue := [cyclic0, request0]\<rparr>) = []"
    "freed (ses0\<lparr>pSndQueue := [cyclic0, request0]\<rparr>) = []"
    by (simp_all add: request0_def ele0_def ses0_def)
  from pdSendQueued_request_removed [OF q due pr, THEN conjunct1] v show ?thesis
    by simp
qed

subsection \<open>trdp\_pdHandleTimeOuts\<close>





subsection \<open>trdp\_pdReceive: the accepting branch\<close>



lemma pdReceive_missed_keeps [simp]:
  "privFlags (pdReceive_missed n e) = privFlags e"
  "pktFlags (pdReceive_missed n e) = pktFlags e"
  "interval (pdReceive_missed n e) = interval e"
  "curSeqCnt (pdReceive_missed n e) = curSeqCnt e"
  "pFrame (pdReceive_missed n e) = pFrame e"
  "pSeqCntList (pdReceive_missed n e) = pSeqCntList e"
  "addr (pdReceive_missed n e) = addr e"
  "pfCbFunction (pdReceive_missed n e) = pfCbFunction e"
  by (simp_all add: pdReceive_missed_def)






end
